theory Spec2Isabelle
  imports Complex_Main "HOL-Library.AList" "HOL-Library.Multiset"
begin

section \<open>Peer identity and bucketing (utils)\<close>

text \<open>
  A peer info carries the address of a remote node and its advertised attributes; of the
  advertised attributes only \<open>height\<close> is kept, standing for all of them. \<open>wsPort\<close> is
  an integer port number.
\<close>

record peer_info =
  ipAddress :: string
  wsPort :: nat
  height :: nat

text \<open>The decimal digits of a number, as a JavaScript template literal prints an integer.\<close>

fun string_of_nat :: "nat \<Rightarrow> string" where
  "string_of_nat n =
     (if n < 10 then [''0123456789'' ! n]
      else string_of_nat (n div 10) @ [''0123456789'' ! (n mod 10)])"

declare string_of_nat.simps [simp del]

definition constructPeerIdFromPeerInfo :: "peer_info \<Rightarrow> string" where
  "constructPeerIdFromPeerInfo info = ipAddress info @ '':'' @ string_of_nat (wsPort info)"

text \<open>
  \<open>getBucket\<close> ignores its three arguments and returns
  \<open>Math.floor(Math.random() * 64)\<close>. The value drawn by \<open>Math.random()\<close>, a number in
  \<open>[0, 1)\<close>, is the last argument of the model. Multiplying by 64 is exact in binary
  floating point, so the product is the real product.
\<close>

definition getBucket :: "string \<Rightarrow> int \<Rightarrow> int \<Rightarrow> real \<Rightarrow> int" where
  "getBucket ip secret bucketSize random = \<lfloor>random * 64\<rfloor>"

section \<open>Packets, errors and events\<close>

record node_info =
  nodeVersion :: string
  nodeHeight :: nat

record request_packet =
  procedure :: string
  requestData :: string

record response_packet =
  responseData :: string

record message_packet =
  event :: string
  messageData :: string

record close_packet =
  closedPeerInfo :: peer_info
  code :: nat
  reason :: "string option"

text \<open>
  The errors of the pool, each with its message. \<open>TypeError\<close> is what the runtime raises
  when a property of \<open>undefined\<close> is read.
\<close>

datatype error =
    RequestFailError string
  | SendFailError string
  | Error string
  | TypeError

datatype event_name =
    EVENT_REQUEST_RECEIVED
  | EVENT_MESSAGE_RECEIVED
  | EVENT_CONNECT_OUTBOUND
  | EVENT_CONNECT_ABORT_OUTBOUND
  | EVENT_CLOSE_OUTBOUND
  | EVENT_CLOSE_INBOUND
  | EVENT_OUTBOUND_SOCKET_ERROR
  | EVENT_INBOUND_SOCKET_ERROR
  | EVENT_UPDATED_PEER_INFO
  | EVENT_FAILED_PEER_INFO_UPDATE
  | EVENT_BAN_PEER
  | EVENT_UNBAN_PEER

text \<open>The listeners the pool creates in its constructor, one per event of a peer.\<close>

datatype handler =
    HandlePeerRPC
  | HandlePeerMessage
  | HandleOutboundPeerConnect
  | HandleOutboundPeerConnectAbort
  | HandlePeerCloseOutbound
  | HandlePeerCloseInbound
  | HandlePeerOutboundSocketError
  | HandlePeerInboundSocketError
  | HandlePeerInfoUpdate
  | HandleFailedPeerInfoUpdate
  | HandleBanPeer
  | HandleUnbanPeer

datatype payload =
    ClosePayload close_packet
  | ErrorPayload error

section \<open>Peers\<close>

datatype peer_kind = Outbound | Inbound

datatype channel_state = Connecting | Connected | Closing | Closed | Banned

text \<open>A socket is an opaque channel; the model keeps the state the channel is in.\<close>

type_synonym socket = channel_state

record peer_config =
  connectTimeout :: "nat option"
  ackTimeout :: "nat option"
  banTime :: "nat option"

text \<open>
  A peer object. \<open>peer_id\<close> is its field \<open>id\<close>, and \<open>kind\<close> is the class of the
  object, what \<open>instanceof\<close> tests.
  \<open>listeners\<close> is the listener table of the peer's event emitter, in registration order.
  \<open>outbox\<close> lists the messages handed to the channel and \<open>pushedNodeInfo\<close> the node
  info last applied to the peer.
\<close>

record peer =
  peer_id :: string
  peerInfo :: peer_info
  kind :: peer_kind
  config :: peer_config
  state :: channel_state
  listeners :: "(event_name \<times> handler) list"
  outbox :: "message_packet list"
  pushedNodeInfo :: "node_info option"

text \<open>
  Modelled from the spec: the constructors of the peer classes, which are in peer.ts and
  not among the sources. The spec gives a peer the id \<open>ip:port\<close> of its peer info
  (the canonical peerId, the key of the live-peer map), a kind, its configuration and a
  channel; a peer created without a socket has still to dial and is \<open>Connecting\<close>.
\<close>

definition newPeer :: "peer_kind \<Rightarrow> peer_info \<Rightarrow> socket option \<Rightarrow> peer_config \<Rightarrow> peer" where
  "newPeer k info sock pc =
     \<lparr> peer_id = constructPeerIdFromPeerInfo info,
       peerInfo = info,
       kind = k,
       config = pc,
       state = (case sock of Some s \<Rightarrow> s | None \<Rightarrow> Connecting),
       listeners = [],
       outbox = [],
       pushedNodeInfo = None \<rparr>"

definition OutboundPeer :: "peer_info \<Rightarrow> socket option \<Rightarrow> peer_config \<Rightarrow> peer" where
  "OutboundPeer info sock pc = newPeer Outbound info sock pc"

definition InboundPeer :: "peer_info \<Rightarrow> socket \<Rightarrow> peer_config \<Rightarrow> peer" where
  "InboundPeer info sock pc = newPeer Inbound info (Some sock) pc"

text \<open>
  Modelled from the spec: \<open>Peer.updatePeerInfo\<close> (peer.ts, not among the sources)
  stores the peer info it is given; the id of the peer stays.
\<close>

definition updatePeerInfo :: "peer_info \<Rightarrow> peer \<Rightarrow> peer" where
  "updatePeerInfo info p = p\<lparr>peerInfo := info\<rparr>"

text \<open>
  Modelled from the spec: \<open>Peer.disconnect\<close> (peer.ts, not among the sources) is
  idempotent and leaves the channel closed. The close event that the channel emits
  reaches the pool through the close handlers below.
\<close>

definition disconnect :: "peer \<Rightarrow> peer" where
  "disconnect p = p\<lparr>state := Closed\<rparr>"

text \<open>
  Modelled from the spec: \<open>Peer.send\<close> (peer.ts, not among the sources) is
  fire-and-forget and fails with SendFail if the channel is not connected.
\<close>

definition peer_send :: "message_packet \<Rightarrow> peer \<Rightarrow> error + peer" where
  "peer_send message p =
     (if state p = Connected then Inr (p\<lparr>outbox := outbox p @ [message]\<rparr>)
      else Inl (SendFailError ''Peer channel is not connected''))"

text \<open>
  Modelled from the spec: \<open>Peer.applyNodeInfo\<close> (peer.ts, not among the sources)
  pushes the node info to the remote. The pool calls it without awaiting it
  (\<open>_applyNodeInfoOnPeer\<close>); a failure of the push arrives later as an event.
\<close>

definition applyNodeInfoOnPeer :: "node_info \<Rightarrow> peer \<Rightarrow> peer" where
  "applyNodeInfoOnPeer ni p = p\<lparr>pushedNodeInfo := Some ni\<rparr>"

text \<open>
  The event emitter of a peer: \<open>on\<close> appends a listener, also when the same listener is
  registered already; \<open>removeListener\<close> removes the most recently added instance of the
  listener for that event, if there is one.
\<close>

definition on :: "event_name \<Rightarrow> handler \<Rightarrow> peer \<Rightarrow> peer" where
  "on ev h p = p\<lparr>listeners := listeners p @ [(ev, h)]\<rparr>"

definition removeListener :: "event_name \<Rightarrow> handler \<Rightarrow> peer \<Rightarrow> peer" where
  "removeListener ev h p = p\<lparr>listeners := rev (remove1 (ev, h) (rev (listeners p)))\<rparr>"

definition bindHandlersToPeer :: "peer \<Rightarrow> peer" where
  "bindHandlersToPeer p =
     foldl (\<lambda>q (ev, h). on ev h q) p
       [(EVENT_REQUEST_RECEIVED, HandlePeerRPC),
        (EVENT_MESSAGE_RECEIVED, HandlePeerMessage),
        (EVENT_CONNECT_OUTBOUND, HandleOutboundPeerConnect),
        (EVENT_CONNECT_ABORT_OUTBOUND, HandleOutboundPeerConnectAbort),
        (EVENT_CLOSE_OUTBOUND, HandlePeerCloseOutbound),
        (EVENT_CLOSE_INBOUND, HandlePeerCloseInbound),
        (EVENT_OUTBOUND_SOCKET_ERROR, HandlePeerOutboundSocketError),
        (EVENT_INBOUND_SOCKET_ERROR, HandlePeerInboundSocketError),
        (EVENT_UPDATED_PEER_INFO, HandlePeerInfoUpdate),
        (EVENT_FAILED_PEER_INFO_UPDATE, HandleFailedPeerInfoUpdate),
        (EVENT_BAN_PEER, HandleBanPeer),
        (EVENT_UNBAN_PEER, HandleUnbanPeer)]"

definition unbindHandlersFromPeer :: "peer \<Rightarrow> peer" where
  "unbindHandlersFromPeer p =
     foldl (\<lambda>q (ev, h). removeListener ev h q) p
       [(EVENT_REQUEST_RECEIVED, HandlePeerRPC),
        (EVENT_MESSAGE_RECEIVED, HandlePeerMessage),
        (EVENT_CONNECT_OUTBOUND, HandleOutboundPeerConnect),
        (EVENT_CONNECT_ABORT_OUTBOUND, HandleOutboundPeerConnectAbort),
        (EVENT_CLOSE_OUTBOUND, HandlePeerCloseOutbound),
        (EVENT_CLOSE_INBOUND, HandlePeerCloseInbound),
        (EVENT_UPDATED_PEER_INFO, HandlePeerInfoUpdate),
        (EVENT_FAILED_PEER_INFO_UPDATE, HandleFailedPeerInfoUpdate),
        (EVENT_BAN_PEER, HandleBanPeer),
        (EVENT_UNBAN_PEER, HandleUnbanPeer)]"

section \<open>The peer pool\<close>

text \<open>
  The selectors take the fields of their input object as arguments, in the order
  \<open>peers\<close>, \<open>nodeInfo\<close>, \<open>peerLimit\<close>, packet. A limit is a JavaScript number and can be
  negative. In the configuration of the pool, \<open>poolConnectTimeout\<close> and
  \<open>poolAckTimeout\<close> are the options \<open>connectTimeout\<close> and \<open>ackTimeout\<close>; the
  interval of the eviction timer is left out, as the timer is.
\<close>

type_synonym send_selector =
  "peer_info list \<Rightarrow> node_info option \<Rightarrow> int \<Rightarrow> message_packet \<Rightarrow> peer_info list"

type_synonym request_selector =
  "peer_info list \<Rightarrow> node_info option \<Rightarrow> int \<Rightarrow> request_packet \<Rightarrow> peer_info list"

type_synonym connection_selector =
  "peer_info list \<Rightarrow> int \<Rightarrow> peer_info list"

record peer_pool_config =
  poolConnectTimeout :: "nat option"
  poolAckTimeout :: "nat option"
  peerSelectionForSend :: send_selector
  peerSelectionForRequest :: request_selector
  peerSelectionForConnection :: connection_selector
  sendPeerLimit :: int
  peerBanTime :: "nat option"
  maxOutboundConnections :: int
  maxInboundConnections :: int

text \<open>
  The state of a pool. \<open>peerMap\<close> is the \<open>Map\<close> from peer id to peer, as the list of its
  entries in insertion order: \<open>map_of\<close> is \<open>get\<close>, \<open>AList.update\<close> is \<open>set\<close> (an existing
  key keeps its place, a new one goes to the end) and \<open>AList.delete\<close> is \<open>delete\<close>.
  \<open>emitted\<close> is the log of the events the pool has emitted; each entry holds the event,
  its payload and the keys of the map at the moment of the emission, which is what a
  subscriber called at that moment finds in the map. \<open>detached\<close> holds the peer objects
  that the map referenced once and references no more; the objects live on as long as
  their channel or the host holds them.
\<close>

record peer_pool =
  peerMap :: "(string \<times> peer) list"
  nodeInfo :: "node_info option"
  emitted :: "(event_name \<times> payload \<times> string list) list"
  detached :: "peer list"

definition emptyPool :: peer_pool where
  "emptyPool = \<lparr> peerMap = [], nodeInfo = None, emitted = [], detached = [] \<rparr>"

definition emit :: "event_name \<Rightarrow> payload \<Rightarrow> peer_pool \<Rightarrow> peer_pool" where
  "emit ev x pool = pool\<lparr>emitted := emitted pool @ [(ev, x, map fst (peerMap pool))]\<rparr>"

definition getPeer :: "peer_pool \<Rightarrow> string \<Rightarrow> peer option" where
  "getPeer pool peerId = map_of (peerMap pool) peerId"

definition hasPeer :: "peer_pool \<Rightarrow> string \<Rightarrow> bool" where
  "hasPeer pool peerId = (peerId \<in> set (map fst (peerMap pool)))"

definition getPeers :: "peer_kind option \<Rightarrow> peer_pool \<Rightarrow> peer list" where
  "getPeers k pool =
     (let peers = map snd (peerMap pool)
      in case k of Some c \<Rightarrow> filter (\<lambda>p. kind p = c) peers | None \<Rightarrow> peers)"

record peers_count =
  outbound :: nat
  inbound :: nat

text \<open>
  The reduction of \<open>getPeersCountPerKind\<close>. Its third branch, the error for a peer of
  neither class, cannot be reached: a peer of the pool is built by one of the two
  constructors.
\<close>

definition getPeersCountPerKind :: "peer_pool \<Rightarrow> peers_count" where
  "getPeersCountPerKind pool =
     foldl (\<lambda>prev p. case kind p of
                Outbound \<Rightarrow> \<lparr> outbound = outbound prev + 1, inbound = inbound prev \<rparr>
              | Inbound \<Rightarrow> \<lparr> outbound = outbound prev, inbound = inbound prev + 1 \<rparr>)
       \<lparr> outbound = 0, inbound = 0 \<rparr> (map snd (peerMap pool))"

text \<open>
  \<open>removePeer\<close> disconnects the peer and unbinds the pool's handlers from it, if the peer
  is in the map, and returns what \<open>Map.delete\<close> returns: whether the key was there.
\<close>

definition removePeer :: "string \<Rightarrow> peer_pool \<Rightarrow> bool \<times> peer_pool" where
  "removePeer peerId pool =
     (let pool1 = (case map_of (peerMap pool) peerId of
                     Some p \<Rightarrow>
                       pool\<lparr>detached := detached pool @ [unbindHandlersFromPeer (disconnect p)]\<rparr>
                   | None \<Rightarrow> pool)
      in (peerId \<in> set (map fst (peerMap pool1)),
          pool1\<lparr>peerMap := AList.delete peerId (peerMap pool1)\<rparr>))"

text \<open>
  \<open>set\<close> on the map, keeping the object it overwrites: a peer object that loses its
  entry to another object is neither disconnected nor unbound.
\<close>

definition setPeer :: "string \<Rightarrow> peer \<Rightarrow> peer_pool \<Rightarrow> peer_pool" where
  "setPeer k p pool =
     pool\<lparr>peerMap := AList.update k p (peerMap pool),
          detached := (case map_of (peerMap pool) k of
                         Some old \<Rightarrow> detached pool @ [old]
                       | None \<Rightarrow> detached pool)\<rparr>"

text \<open>
  \<open>addInboundPeer\<close>. \<open>shuffle\<close> is the random permutation that lodash draws for this
  call. The result is the peer returned or the error thrown, with the state the pool is
  left in: an eviction done before an error is thrown stays done.
\<close>

definition addInboundPeer ::
  "peer_pool_config \<Rightarrow> (peer list \<Rightarrow> peer list) \<Rightarrow> peer_info \<Rightarrow> socket \<Rightarrow> peer_pool
     \<Rightarrow> (error + peer) \<times> peer_pool" where
  "addInboundPeer cfg shuffle info sock pool =
     (let inboundPeers = getPeers (Some Inbound) pool
      in case (if maxInboundConnections cfg \<le> int (length inboundPeers)
               then (case shuffle inboundPeers of
                       [] \<Rightarrow> Inl TypeError
                     | victim # rest \<Rightarrow> Inr (snd (removePeer (peer_id victim) pool)))
               else Inr pool) of
           Inl e \<Rightarrow> (Inl e, pool)
         | Inr pool1 \<Rightarrow>
             (let peerConfig = \<lparr> connectTimeout = poolConnectTimeout cfg,
                                 ackTimeout = poolAckTimeout cfg,
                                 banTime = None \<rparr>;
                  p = InboundPeer info sock peerConfig
              in if hasPeer pool1 (peer_id p)
                 then (Inl (Error (''Peer '' @ peer_id p @ '' was already in the peer pool'')),
                       pool1)
                 else (let p1 = bindHandlersToPeer p;
                           p2 = (case nodeInfo pool1 of
                                   Some ni \<Rightarrow> applyNodeInfoOnPeer ni p1
                                 | None \<Rightarrow> p1)
                       in (Inr p2, setPeer (peer_id p) p2 pool1))))"

text \<open>
  \<open>addOutboundPeer\<close> looks the peer up under \<open>peerId\<close> and stores a new peer under the id
  of the new peer object. It has no check against \<open>maxOutboundConnections\<close>.
\<close>

definition addOutboundPeer ::
  "peer_pool_config \<Rightarrow> string \<Rightarrow> peer_info \<Rightarrow> socket option \<Rightarrow> peer_pool
     \<Rightarrow> peer \<times> peer_pool" where
  "addOutboundPeer cfg peerId info sock pool =
     (case getPeer pool peerId of
        Some existingPeer \<Rightarrow>
          (let p = updatePeerInfo info existingPeer
           in (p, pool\<lparr>peerMap := AList.update peerId p (peerMap pool)\<rparr>))
      | None \<Rightarrow>
          (let peerConfig = \<lparr> connectTimeout = poolConnectTimeout cfg,
                              ackTimeout = poolAckTimeout cfg,
                              banTime = peerBanTime cfg \<rparr>;
               p = OutboundPeer info sock peerConfig;
               p1 = bindHandlersToPeer p;
               p2 = (case nodeInfo pool of
                       Some ni \<Rightarrow> applyNodeInfoOnPeer ni p1
                     | None \<Rightarrow> p1)
           in (p2, setPeer (peer_id p) p2 pool)))"

definition triggerNewConnections ::
  "peer_pool_config \<Rightarrow> peer_info list \<Rightarrow> peer_pool \<Rightarrow> peer_pool" where
  "triggerNewConnections cfg peers pool =
     (let disconnectedPeers =
            filter (\<lambda>p. \<not> hasPeer pool (constructPeerIdFromPeerInfo p)) peers;
          peersToConnect =
            peerSelectionForConnection cfg disconnectedPeers
              (maxOutboundConnections cfg - int (outbound (getPeersCountPerKind pool)))
      in foldl (\<lambda>pl info.
                  snd (addOutboundPeer cfg (constructPeerIdFromPeerInfo info) info None pl))
           pool peersToConnect)"

text \<open>
  \<open>requestFromPeer\<close> and \<open>request\<close>. What a peer answers to a request is decided by the
  remote node: \<open>peerRequest\<close> is the \<open>request\<close> method of the peers, the response or the
  error with which its promise settles. A rejected promise is the error of the result.
\<close>

definition requestFromPeer ::
  "(peer \<Rightarrow> request_packet \<Rightarrow> error + response_packet) \<Rightarrow> request_packet \<Rightarrow> string
     \<Rightarrow> peer_pool \<Rightarrow> error + response_packet" where
  "requestFromPeer peerRequest packet peerId pool =
     (case map_of (peerMap pool) peerId of
        None \<Rightarrow>
          Inl (RequestFailError
                 (''Request failed because a peer with id '' @ peerId @ '' could not be found''))
      | Some p \<Rightarrow> peerRequest p packet)"

definition request ::
  "peer_pool_config \<Rightarrow> (peer \<Rightarrow> request_packet \<Rightarrow> error + response_packet)
     \<Rightarrow> request_packet \<Rightarrow> peer_pool \<Rightarrow> error + response_packet" where
  "request cfg peerRequest packet pool =
     (let listOfPeerInfo = map (\<lambda>e. peerInfo (snd e)) (peerMap pool);
          selectedPeers = peerSelectionForRequest cfg listOfPeerInfo (nodeInfo pool) 1 packet
      in case selectedPeers of
           [] \<Rightarrow> Inl (RequestFailError ''Request failed due to no peers found in peer selection'')
         | first # rest \<Rightarrow>
             requestFromPeer peerRequest packet (constructPeerIdFromPeerInfo first) pool)"

text \<open>
  \<open>sendToPeer\<close> and \<open>send\<close>. \<open>send\<close> has no handler around the call of \<open>sendToPeer\<close>: an
  error thrown for one selected peer ends the \<open>forEach\<close> and leaves \<open>send\<close>.
\<close>

definition sendToPeer ::
  "message_packet \<Rightarrow> string \<Rightarrow> peer_pool \<Rightarrow> (error + unit) \<times> peer_pool" where
  "sendToPeer message peerId pool =
     (case map_of (peerMap pool) peerId of
        None \<Rightarrow>
          (Inl (SendFailError
                  (''Send failed because a peer with id '' @ peerId @ '' could not be found'')),
           pool)
      | Some p \<Rightarrow>
          (case peer_send message p of
             Inl e \<Rightarrow> (Inl e, pool)
           | Inr p' \<Rightarrow> (Inr (), pool\<lparr>peerMap := AList.update peerId p' (peerMap pool)\<rparr>)))"

fun sendToEach ::
  "message_packet \<Rightarrow> peer_info list \<Rightarrow> peer_pool \<Rightarrow> (error + unit) \<times> peer_pool" where
  "sendToEach message [] pool = (Inr (), pool)"
| "sendToEach message (info # rest) pool =
     (case sendToPeer message (constructPeerIdFromPeerInfo info) pool of
        (Inl e, pool1) \<Rightarrow> (Inl e, pool1)
      | (Inr u, pool1) \<Rightarrow> sendToEach message rest pool1)"

definition send ::
  "peer_pool_config \<Rightarrow> message_packet \<Rightarrow> peer_pool \<Rightarrow> (error + unit) \<times> peer_pool" where
  "send cfg message pool =
     (let listOfPeerInfo = map (\<lambda>e. peerInfo (snd e)) (peerMap pool);
          selectedPeers =
            peerSelectionForSend cfg listOfPeerInfo (nodeInfo pool) (sendPeerLimit cfg) message
      in sendToEach message selectedPeers pool)"

text \<open>The handlers of the close events and of the socket errors of a peer.\<close>

definition handlePeerCloseOutbound :: "close_packet \<Rightarrow> peer_pool \<Rightarrow> peer_pool" where
  "handlePeerCloseOutbound closePacket pool =
     (let peerId = constructPeerIdFromPeerInfo (closedPeerInfo closePacket);
          pool1 = snd (removePeer peerId pool)
      in emit EVENT_CLOSE_OUTBOUND (ClosePayload closePacket) pool1)"

definition handlePeerCloseInbound :: "close_packet \<Rightarrow> peer_pool \<Rightarrow> peer_pool" where
  "handlePeerCloseInbound closePacket pool =
     (let peerId = constructPeerIdFromPeerInfo (closedPeerInfo closePacket);
          pool1 = snd (removePeer peerId pool)
      in emit EVENT_CLOSE_INBOUND (ClosePayload closePacket) pool1)"

definition handlePeerOutboundSocketError :: "error \<Rightarrow> peer_pool \<Rightarrow> peer_pool" where
  "handlePeerOutboundSocketError err pool = emit EVENT_OUTBOUND_SOCKET_ERROR (ErrorPayload err) pool"

definition handlePeerInboundSocketError :: "error \<Rightarrow> peer_pool \<Rightarrow> peer_pool" where
  "handlePeerInboundSocketError err pool = emit EVENT_INBOUND_SOCKET_ERROR (ErrorPayload err) pool"

text \<open>
  The invariant of the map: no key twice, and every peer under its own id. Every write
  to the map is \<open>set(peer.id, peer)\<close> or an update in place, so every pool built by the
  operations above has it.
\<close>

definition wf_pool :: "peer_pool \<Rightarrow> bool" where
  "wf_pool pool =
     (distinct (map fst (peerMap pool)) \<and> list_all (\<lambda>e. peer_id (snd e) = fst e) (peerMap pool))"

section \<open>Notions used to state the properties\<close>

text \<open>The number of entries of a map whose peer is of a given class.\<close>

definition countKind :: "peer_kind \<Rightarrow> (string \<times> peer) list \<Rightarrow> nat" where
  "countKind k al = length (filter (\<lambda>e. kind (snd e) = k) al)"

text \<open>
  A peer id under which \<open>sendToPeer\<close> succeeds: the peer is in the map and its channel is
  connected. \<open>received\<close> says that the peer under an id has been handed a message.
\<close>

definition connectedPeer :: "peer_pool \<Rightarrow> string \<Rightarrow> bool" where
  "connectedPeer pool peerId =
     (case map_of (peerMap pool) peerId of Some p \<Rightarrow> state p = Connected | None \<Rightarrow> False)"

definition received :: "message_packet \<Rightarrow> peer_pool \<Rightarrow> string \<Rightarrow> bool" where
  "received message pool peerId =
     (case map_of (peerMap pool) peerId of
        Some p \<Rightarrow> message \<in> set (outbox p)
      | None \<Rightarrow> False)"

section \<open>Example pools\<close>

text \<open>
  A configuration whose selectors choose the first \<open>peerLimit\<close> candidates, with the two
  connection limits as parameters, and one whose send and request selectors return a
  fixed peer whatever the candidates are.
\<close>

definition exampleConfig :: "int \<Rightarrow> int \<Rightarrow> peer_pool_config" where
  "exampleConfig maxOut maxIn =
     \<lparr> poolConnectTimeout = Some 2000,
       poolAckTimeout = Some 10000,
       peerSelectionForSend = (\<lambda>peers ni limit message. take (nat limit) peers),
       peerSelectionForRequest = (\<lambda>peers ni limit packet. take (nat limit) peers),
       peerSelectionForConnection = (\<lambda>peers limit. take (nat limit) peers),
       sendPeerLimit = 16,
       peerBanTime = Some 50,
       maxOutboundConnections = maxOut,
       maxInboundConnections = maxIn \<rparr>"

definition fixedConfig :: "peer_info \<Rightarrow> peer_pool_config" where
  "fixedConfig info =
     (exampleConfig 1 1)
       \<lparr> peerSelectionForSend := (\<lambda>peers ni limit message. [info]),
         peerSelectionForRequest := (\<lambda>peers ni limit packet. [info]) \<rparr>"

definition infoA :: peer_info where
  "infoA = \<lparr> ipAddress = ''1.1.1.1'', wsPort = 5000, height = 10 \<rparr>"

definition infoB :: peer_info where
  "infoB = \<lparr> ipAddress = ''2.2.2.2'', wsPort = 5000, height = 20 \<rparr>"

definition exampleMessage :: message_packet where
  "exampleMessage = \<lparr> event = ''postBlock'', messageData = ''b1'' \<rparr>"

definition exampleRequest :: request_packet where
  "exampleRequest = \<lparr> procedure = ''getBlocks'', requestData = ''10'' \<rparr>"

definition exampleClose :: "peer_info \<Rightarrow> close_packet" where
  "exampleClose info = \<lparr> closedPeerInfo = info, code = 1000, reason = None \<rparr>"

text \<open>A remote that answers every request, and one whose requests all fail.\<close>

definition answeringPeer :: "peer \<Rightarrow> request_packet \<Rightarrow> error + response_packet" where
  "answeringPeer p packet = Inr \<lparr> responseData = procedure packet \<rparr>"

definition failingPeer :: "peer \<Rightarrow> request_packet \<Rightarrow> error + response_packet" where
  "failingPeer p packet = Inl (RequestFailError ''Request failed on the channel'')"

text \<open>
  A pool with the outbound peer \<open>1.1.1.1:5000\<close>, still dialling; one with the inbound
  peer \<open>1.1.1.1:5000\<close>, connected.
\<close>

definition outboundPoolA :: peer_pool where
  "outboundPoolA = snd (addOutboundPeer (exampleConfig 1 1) ''1.1.1.1:5000'' infoA None emptyPool)"

definition inboundPoolA :: peer_pool where
  "inboundPoolA =
     snd (addInboundPeer (exampleConfig 1 1) (\<lambda>peers. peers) infoA Connected emptyPool)"

section \<open>Facts about the map and the counts\<close>

lemma count_foldl:
  "foldl (\<lambda>prev p. case kind p of
                Outbound \<Rightarrow> \<lparr> outbound = outbound prev + 1, inbound = inbound prev \<rparr>
              | Inbound \<Rightarrow> \<lparr> outbound = outbound prev, inbound = inbound prev + 1 \<rparr>) acc ps =
   \<lparr> outbound = outbound acc + length (filter (\<lambda>p. kind p = Outbound) ps),
     inbound = inbound acc + length (filter (\<lambda>p. kind p = Inbound) ps) \<rparr>"
proof (induction ps arbitrary: acc)
  case Nil
  show ?case by simp
next
  case (Cons p ps)
  show ?case by (cases "kind p") (simp_all add: Cons.IH)
qed

lemma countKind_Nil [simp]: "countKind k [] = 0"
  by (simp add: countKind_def)

lemma countKind_Cons [simp]:
  "countKind k (e # al) = (if kind (snd e) = k then Suc (countKind k al) else countKind k al)"
  by (simp add: countKind_def)

lemma countKind_append [simp]: "countKind k (al @ bl) = countKind k al + countKind k bl"
  by (simp add: countKind_def)

lemma counts_eq:
  "getPeersCountPerKind pool =
     \<lparr> outbound = countKind Outbound (peerMap pool), inbound = countKind Inbound (peerMap pool) \<rparr>"
  by (simp add: getPeersCountPerKind_def count_foldl countKind_def filter_map o_def)

lemma outbound_count: "outbound (getPeersCountPerKind pool) = countKind Outbound (peerMap pool)"
  by (simp add: counts_eq)

lemma inbound_count: "inbound (getPeersCountPerKind pool) = countKind Inbound (peerMap pool)"
  by (simp add: counts_eq)

lemma getPeers_length: "length (getPeers (Some c) pool) = countKind c (peerMap pool)"
  by (simp add: getPeers_def countKind_def filter_map o_def)

lemma getPeers_set:
  "p \<in> set (getPeers (Some c) pool) \<Longrightarrow> p \<in> set (map snd (peerMap pool)) \<and> kind p = c"
  by (auto simp: getPeers_def)

lemma update_count_le: "countKind c (AList.update k v al) \<le> Suc (countKind c al)"
  by (induction al) auto

lemma update_count_same:
  "map_of al k = Some old \<Longrightarrow> kind v = kind old \<Longrightarrow>
   countKind c (AList.update k v al) = countKind c al"
  by (induction al) auto

lemma update_length_present:
  "map_of al k = Some old \<Longrightarrow> length (AList.update k v al) = length al"
  by (induction al) auto

lemma update_keys_present:
  "map_of al k = Some old \<Longrightarrow> map fst (AList.update k v al) = map fst al"
  by (induction al) auto

lemma update_absent: "map_of al k = None \<Longrightarrow> AList.update k v al = al @ [(k, v)]"
  by (induction al) auto

lemma delete_count:
  "distinct (map fst al) \<Longrightarrow> map_of al k = Some v \<Longrightarrow>
   countKind c al = countKind c (AList.delete k al) + (if kind v = c then 1 else 0)"
proof (induction al)
  case Nil
  then show ?case by simp
next
  case (Cons e al)
  show ?case
  proof (cases "fst e = k")
    case True
    with Cons.prems have "k \<notin> fst ` set al" and "snd e = v" by auto
    then show ?thesis using True by (cases e) (simp add: AList.delete_id)
  next
    case False
    with Cons show ?thesis by (cases e) auto
  qed
qed

lemma delete_length:
  "distinct (map fst al) \<Longrightarrow> map_of al k = Some v \<Longrightarrow>
   Suc (length (AList.delete k al)) = length al"
proof (induction al)
  case Nil
  then show ?case by simp
next
  case (Cons e al)
  show ?case
  proof (cases "fst e = k")
    case True
    with Cons.prems have "k \<notin> fst ` set al" by auto
    then show ?thesis using True by (cases e) (simp add: AList.delete_id)
  next
    case False
    with Cons show ?thesis by (cases e) auto
  qed
qed

lemma wf_lookup:
  assumes "wf_pool pool" and "p \<in> set (map snd (peerMap pool))"
  shows "map_of (peerMap pool) (peer_id p) = Some p"
proof -
  from assms(2) obtain k where "(k, p) \<in> set (peerMap pool)" by auto
  moreover from this assms(1) have "peer_id p = k"
    by (auto simp: wf_pool_def list_all_iff)
  ultimately show ?thesis using assms(1) by (simp add: wf_pool_def)
qed

lemma kind_bind [simp]: "kind (bindHandlersToPeer p) = kind p"
  by (simp add: bindHandlersToPeer_def on_def)

lemma kind_new [simp]: "kind (newPeer k info sock pc) = k"
  by (simp add: newPeer_def)

lemma kind_apply [simp]: "kind (applyNodeInfoOnPeer ni p) = kind p"
  by (simp add: applyNodeInfoOnPeer_def)

lemma peer_id_Inbound [simp]:
  "peer_id (InboundPeer info sock pc) = constructPeerIdFromPeerInfo info"
  by (simp add: InboundPeer_def newPeer_def)

lemma kind_Inbound [simp]: "kind (InboundPeer info sock pc) = Inbound"
  by (simp add: InboundPeer_def)

lemma removePeer_present:
  assumes "map_of (peerMap pool) k = Some p"
  shows "removePeer k pool =
           (True, pool\<lparr>detached := detached pool @ [unbindHandlersFromPeer (disconnect p)],
                        peerMap := AList.delete k (peerMap pool)\<rparr>)"
proof -
  from assms have "k \<in> fst ` set (peerMap pool)"
    by (metis map_of_eq_None_iff option.distinct(1))
  with assms show ?thesis by (simp add: removePeer_def)
qed

lemma shuffle_head:
  assumes "mset (sh xs) = mset xs" and "xs \<noteq> []"
  obtains v rest where "sh xs = v # rest" and "v \<in> set xs"
proof -
  from assms have "sh xs \<noteq> []" by (metis mset_zero_iff)
  then obtain v rest where e: "sh xs = v # rest" by (cases "sh xs") auto
  have "set (sh xs) = set xs" using assms(1) by (rule mset_eq_setD)
  with e have "v \<in> set xs" by auto
  with e show thesis by (rule that)
qed

section \<open>Removing a peer\<close>

text \<open>
  C9. \<open>removePeer\<close> of an id that is not in the map returns false and changes nothing
  (it has no error to throw: its result is a boolean). After a \<open>removePeer\<close> that
  returned true, \<open>hasPeer\<close> of the id is false and a second \<open>removePeer\<close> of the id
  returns false.
\<close>

theorem removePeer_absent_and_repeated:
  "(\<not> hasPeer pool peerId \<longrightarrow> removePeer peerId pool = (False, pool)) \<and>
   (fst (removePeer peerId pool) \<longrightarrow>
      \<not> hasPeer (snd (removePeer peerId pool)) peerId \<and>
      \<not> fst (removePeer peerId (snd (removePeer peerId pool))))"
  by (auto simp: removePeer_def hasPeer_def Let_def AList.delete_notin_dom map_of_eq_None_iff
      split: option.splits)

theorem removePeer_absent_and_repeated_witness:
  "\<not> hasPeer emptyPool ''1.1.1.1:5000'' \<and>
   removePeer ''1.1.1.1:5000'' emptyPool = (False, emptyPool) \<and>
   fst (removePeer ''1.1.1.1:5000'' outboundPoolA) \<and>
   \<not> hasPeer (snd (removePeer ''1.1.1.1:5000'' outboundPoolA)) ''1.1.1.1:5000'' \<and>
   \<not> fst (removePeer ''1.1.1.1:5000'' (snd (removePeer ''1.1.1.1:5000'' outboundPoolA)))"
proof -
  have absent: "\<not> hasPeer emptyPool ''1.1.1.1:5000''"
    by (simp add: hasPeer_def emptyPool_def)
  have idA: "constructPeerIdFromPeerInfo infoA = ''1.1.1.1:5000''"
    by (simp add: constructPeerIdFromPeerInfo_def infoA_def string_of_nat.simps)
  have present: "hasPeer outboundPoolA ''1.1.1.1:5000''"
    by (simp add: outboundPoolA_def addOutboundPeer_def getPeer_def emptyPool_def setPeer_def
        OutboundPeer_def newPeer_def idA hasPeer_def Let_def)
  then have removed: "fst (removePeer ''1.1.1.1:5000'' outboundPoolA)"
    by (auto simp: removePeer_def hasPeer_def Let_def split: option.splits)
  from absent removed
    removePeer_absent_and_repeated [of emptyPool "''1.1.1.1:5000''"]
    removePeer_absent_and_repeated [of outboundPoolA "''1.1.1.1:5000''"]
  show ?thesis by simp
qed

section \<open>The bound on outbound peers\<close>

lemma addOutboundPeer_outbound_le:
  "outbound (getPeersCountPerKind (snd (addOutboundPeer cfg peerId info sock pool)))
     \<le> Suc (outbound (getPeersCountPerKind pool))"
  by (auto simp: addOutboundPeer_def getPeer_def setPeer_def outbound_count Let_def
        updatePeerInfo_def update_count_le update_count_same split: option.splits)

lemma addOutboundPeer_fold_le:
  "outbound (getPeersCountPerKind
      (foldl (\<lambda>pl info. snd (addOutboundPeer cfg (constructPeerIdFromPeerInfo info) info None pl))
         pool infos))
     \<le> outbound (getPeersCountPerKind pool) + length infos"
proof (induction infos arbitrary: pool)
  case Nil
  show ?case by simp
next
  case (Cons info infos)
  let ?step = "\<lambda>pl info. snd (addOutboundPeer cfg (constructPeerIdFromPeerInfo info) info None pl)"
  let ?pool1 = "?step pool info"
  have "outbound (getPeersCountPerKind (foldl ?step ?pool1 infos))
          \<le> outbound (getPeersCountPerKind ?pool1) + length infos"
    by (rule Cons.IH)
  also have "\<dots> \<le> Suc (outbound (getPeersCountPerKind pool)) + length infos"
    using addOutboundPeer_outbound_le [of cfg "constructPeerIdFromPeerInfo info" info None pool]
    by simp
  finally show ?case by simp
qed

text \<open>
  C1, as amended. \<open>triggerNewConnections\<close> keeps the outbound count within
  \<open>maxOutboundConnections\<close> whenever the connection selector returns no more peers than
  the limit it is given, which is \<open>maxOutboundConnections\<close> minus the current outbound
  count. \<open>addOutboundPeer\<close> itself adds one outbound peer for a peer that is not in the
  map, whatever the count and the maximum are.
\<close>

theorem triggerNewConnections_outbound_bound:
  "(int (length (peerSelectionForConnection cfg
                   (filter (\<lambda>p. \<not> hasPeer pool (constructPeerIdFromPeerInfo p)) peers)
                   (maxOutboundConnections cfg - int (outbound (getPeersCountPerKind pool)))))
      \<le> maxOutboundConnections cfg - int (outbound (getPeersCountPerKind pool))
    \<longrightarrow> int (outbound (getPeersCountPerKind (triggerNewConnections cfg peers pool)))
          \<le> maxOutboundConnections cfg) \<and>
   (\<not> hasPeer pool peerId \<and> \<not> hasPeer pool (constructPeerIdFromPeerInfo info)
    \<longrightarrow> outbound (getPeersCountPerKind (snd (addOutboundPeer cfg peerId info sock pool)))
          = outbound (getPeersCountPerKind pool) + 1)"
proof (intro conjI impI)
  let ?sel = "peerSelectionForConnection cfg
                (filter (\<lambda>p. \<not> hasPeer pool (constructPeerIdFromPeerInfo p)) peers)
                (maxOutboundConnections cfg - int (outbound (getPeersCountPerKind pool)))"
  assume h: "int (length ?sel)
               \<le> maxOutboundConnections cfg - int (outbound (getPeersCountPerKind pool))"
  have "outbound (getPeersCountPerKind (triggerNewConnections cfg peers pool))
          \<le> outbound (getPeersCountPerKind pool) + length ?sel"
    unfolding triggerNewConnections_def Let_def by (rule addOutboundPeer_fold_le)
  with h show "int (outbound (getPeersCountPerKind (triggerNewConnections cfg peers pool)))
                 \<le> maxOutboundConnections cfg"
    by linarith
next
  assume "\<not> hasPeer pool peerId \<and> \<not> hasPeer pool (constructPeerIdFromPeerInfo info)"
  then have a: "map_of (peerMap pool) peerId = None"
    and b: "map_of (peerMap pool) (constructPeerIdFromPeerInfo info) = None"
    by (auto simp: hasPeer_def map_of_eq_None_iff)
  show "outbound (getPeersCountPerKind (snd (addOutboundPeer cfg peerId info sock pool)))
          = outbound (getPeersCountPerKind pool) + 1"
    using a b
    by (auto simp: addOutboundPeer_def getPeer_def setPeer_def outbound_count Let_def
        OutboundPeer_def update_absent newPeer_def applyNodeInfoOnPeer_def split: option.splits)
qed

theorem triggerNewConnections_outbound_bound_witness:
  "int (length (peerSelectionForConnection (exampleConfig 1 1)
                  (filter (\<lambda>p. \<not> hasPeer emptyPool (constructPeerIdFromPeerInfo p)) [infoA, infoB])
                  (maxOutboundConnections (exampleConfig 1 1)
                     - int (outbound (getPeersCountPerKind emptyPool)))))
     \<le> maxOutboundConnections (exampleConfig 1 1) - int (outbound (getPeersCountPerKind emptyPool)) \<and>
   int (outbound (getPeersCountPerKind
          (triggerNewConnections (exampleConfig 1 1) [infoA, infoB] emptyPool)))
     \<le> maxOutboundConnections (exampleConfig 1 1) \<and>
   \<not> hasPeer emptyPool ''1.1.1.1:5000'' \<and>
   \<not> hasPeer emptyPool (constructPeerIdFromPeerInfo infoA) \<and>
   outbound (getPeersCountPerKind
      (snd (addOutboundPeer (exampleConfig 1 1) ''1.1.1.1:5000'' infoA None emptyPool)))
     = outbound (getPeersCountPerKind emptyPool) + 1"
proof -
  have sel: "int (length (peerSelectionForConnection (exampleConfig 1 1)
                  (filter (\<lambda>p. \<not> hasPeer emptyPool (constructPeerIdFromPeerInfo p)) [infoA, infoB])
                  (maxOutboundConnections (exampleConfig 1 1)
                     - int (outbound (getPeersCountPerKind emptyPool)))))
     \<le> maxOutboundConnections (exampleConfig 1 1) - int (outbound (getPeersCountPerKind emptyPool))"
    by (simp add: exampleConfig_def emptyPool_def hasPeer_def getPeersCountPerKind_def)
  have absent: "\<not> hasPeer emptyPool ''1.1.1.1:5000'' \<and>
      \<not> hasPeer emptyPool (constructPeerIdFromPeerInfo infoA)"
    by (simp add: hasPeer_def emptyPool_def)
  from sel absent
    triggerNewConnections_outbound_bound
      [of "exampleConfig 1 1" emptyPool "[infoA, infoB]" "''1.1.1.1:5000''" infoA None]
  show ?thesis by blast
qed

text \<open>
  The claim as stated fails: in a pool with \<open>maxOutboundConnections = 1\<close>, two calls of
  \<open>addOutboundPeer\<close> leave two outbound peers in the map.
\<close>

theorem addOutboundPeer_exceeds_maxOutbound:
  "outbound (getPeersCountPerKind
     (snd (addOutboundPeer (exampleConfig 1 1) ''2.2.2.2:5000'' infoB None
        (snd (addOutboundPeer (exampleConfig 1 1) ''1.1.1.1:5000'' infoA None emptyPool))))) = 2 \<and>
   maxOutboundConnections (exampleConfig 1 1) = 1"
  by (simp add: addOutboundPeer_def getPeer_def emptyPool_def setPeer_def OutboundPeer_def
      newPeer_def hasPeer_def Let_def constructPeerIdFromPeerInfo_def infoA_def infoB_def
      string_of_nat.simps getPeersCountPerKind_def exampleConfig_def bindHandlersToPeer_def
      on_def)

section \<open>Adding an outbound peer under an id that is in the map\<close>

lemma addOutboundPeer_existing:
  assumes "getPeer pool peerId = Some existing"
  shows "addOutboundPeer cfg peerId info sock pool =
           (existing\<lparr>peerInfo := info\<rparr>,
            pool\<lparr>peerMap := AList.update peerId (existing\<lparr>peerInfo := info\<rparr>) (peerMap pool)\<rparr>)"
  using assms by (simp add: addOutboundPeer_def updatePeerInfo_def Let_def)

lemma addOutboundPeer_present:
  assumes "peerId = constructPeerIdFromPeerInfo info \<or> hasPeer pool peerId"
  shows "getPeer (snd (addOutboundPeer cfg peerId info sock pool)) peerId
           = Some (fst (addOutboundPeer cfg peerId info sock pool))"
proof (cases "getPeer pool peerId")
  case (Some existing)
  then show ?thesis
    by (simp add: addOutboundPeer_existing getPeer_def AList.update_conv')
next
  case None
  then have "\<not> hasPeer pool peerId"
    by (simp add: getPeer_def hasPeer_def map_of_eq_None_iff)
  with assms have "peerId = constructPeerIdFromPeerInfo info" by simp
  with None show ?thesis
    by (simp add: addOutboundPeer_def getPeer_def setPeer_def Let_def AList.update_conv'
        OutboundPeer_def newPeer_def split: option.splits)
qed

lemma infoA_id: "constructPeerIdFromPeerInfo infoA = ''1.1.1.1:5000''"
  by (simp add: constructPeerIdFromPeerInfo_def infoA_def string_of_nat.simps)

lemma infoB_id: "constructPeerIdFromPeerInfo infoB = ''2.2.2.2:5000''"
  by (simp add: constructPeerIdFromPeerInfo_def infoB_def string_of_nat.simps)

lemma inboundPoolA_map:
  "peerMap inboundPoolA =
     [(''1.1.1.1:5000'',
       bindHandlersToPeer
         (InboundPeer infoA Connected
            \<lparr> connectTimeout = Some 2000, ackTimeout = Some 10000, banTime = None \<rparr>))]"
  by (simp add: inboundPoolA_def addInboundPeer_def getPeers_def emptyPool_def exampleConfig_def
      hasPeer_def setPeer_def Let_def infoA_id)

text \<open>
  C10. For a peer id that is in the map as an inbound peer, \<open>addOutboundPeer\<close> creates
  no outbound peer: it returns the inbound peer with the peer info replaced, stores it
  under the same key, and leaves the counts per kind, the keys of the map (so its size)
  and the set of detached objects as they were.
\<close>

theorem addOutboundPeer_existing_inbound:
  assumes "getPeer pool peerId = Some existing" and "kind existing = Inbound"
  shows "fst (addOutboundPeer cfg peerId info sock pool) = existing\<lparr>peerInfo := info\<rparr> \<and>
         kind (fst (addOutboundPeer cfg peerId info sock pool)) = Inbound \<and>
         getPeer (snd (addOutboundPeer cfg peerId info sock pool)) peerId
           = Some (existing\<lparr>peerInfo := info\<rparr>) \<and>
         getPeersCountPerKind (snd (addOutboundPeer cfg peerId info sock pool))
           = getPeersCountPerKind pool \<and>
         map fst (peerMap (snd (addOutboundPeer cfg peerId info sock pool)))
           = map fst (peerMap pool) \<and>
         detached (snd (addOutboundPeer cfg peerId info sock pool)) = detached pool"
  using assms
  by (simp add: addOutboundPeer_existing getPeer_def counts_eq
      update_count_same update_keys_present AList.update_conv')

theorem addOutboundPeer_existing_inbound_witness:
  "getPeer inboundPoolA ''1.1.1.1:5000'' =
     Some (bindHandlersToPeer
            (InboundPeer infoA Connected
               \<lparr> connectTimeout = Some 2000, ackTimeout = Some 10000, banTime = None \<rparr>)) \<and>
   kind (fst (addOutboundPeer (exampleConfig 1 1) ''1.1.1.1:5000'' infoB (Some Connected)
                inboundPoolA)) = Inbound \<and>
   peerInfo (fst (addOutboundPeer (exampleConfig 1 1) ''1.1.1.1:5000'' infoB (Some Connected)
                inboundPoolA)) = infoB \<and>
   getPeersCountPerKind (snd (addOutboundPeer (exampleConfig 1 1) ''1.1.1.1:5000'' infoB
                                (Some Connected) inboundPoolA))
     = \<lparr> outbound = 0, inbound = 1 \<rparr> \<and>
   map fst (peerMap (snd (addOutboundPeer (exampleConfig 1 1) ''1.1.1.1:5000'' infoB
                            (Some Connected) inboundPoolA)))
     = [''1.1.1.1:5000'']"
proof -
  let ?existing = "bindHandlersToPeer
            (InboundPeer infoA Connected
               \<lparr> connectTimeout = Some 2000, ackTimeout = Some 10000, banTime = None \<rparr>)"
  have g: "getPeer inboundPoolA ''1.1.1.1:5000'' = Some ?existing"
    by (simp add: getPeer_def inboundPoolA_map)
  have k: "kind ?existing = Inbound" by simp
  have c: "getPeersCountPerKind inboundPoolA = \<lparr> outbound = 0, inbound = 1 \<rparr>"
    by (simp add: counts_eq inboundPoolA_map)
  from addOutboundPeer_existing_inbound
         [where cfg = "exampleConfig 1 1" and info = infoB and sock = "Some Connected", OF g k] g c
  show ?thesis by (simp add: inboundPoolA_map)
qed

text \<open>
  C6, as amended. When the peer id passed is the id \<open>ip:port\<close> of the first peer info,
  or is in the map already, the second of two calls of \<open>addOutboundPeer\<close> with that id
  leaves the keys of the map (so its size) unchanged, the peer stored under the id
  carries the second peer info, and the peer returned is the peer the first call
  returned, with the peer info replaced.
\<close>

theorem addOutboundPeer_twice:
  assumes "peerId = constructPeerIdFromPeerInfo firstInfo \<or> hasPeer pool peerId"
  shows "case addOutboundPeer cfg peerId firstInfo firstSock pool of (p1, pool1) \<Rightarrow>
           (case addOutboundPeer cfg peerId secondInfo secondSock pool1 of (p2, pool2) \<Rightarrow>
              length (peerMap pool2) = length (peerMap pool1) \<and>
              map fst (peerMap pool2) = map fst (peerMap pool1) \<and>
              getPeer pool1 peerId = Some p1 \<and>
              getPeer pool2 peerId = Some p2 \<and>
              peerInfo p2 = secondInfo \<and>
              p2 = p1\<lparr>peerInfo := secondInfo\<rparr>)"
proof -
  obtain p1 pool1 where r1: "addOutboundPeer cfg peerId firstInfo firstSock pool = (p1, pool1)"
    by (cases "addOutboundPeer cfg peerId firstInfo firstSock pool")
  have g1: "getPeer pool1 peerId = Some p1"
    using addOutboundPeer_present [OF assms, of cfg firstSock] r1 by simp
  have r2: "addOutboundPeer cfg peerId secondInfo secondSock pool1 =
              (p1\<lparr>peerInfo := secondInfo\<rparr>,
               pool1\<lparr>peerMap := AList.update peerId (p1\<lparr>peerInfo := secondInfo\<rparr>) (peerMap pool1)\<rparr>)"
    by (rule addOutboundPeer_existing [OF g1])
  have m1: "map_of (peerMap pool1) peerId = Some p1"
    using g1 by (simp add: getPeer_def)
  show ?thesis
    using g1 m1
    by (simp add: r1 r2 getPeer_def AList.update_conv' update_length_present update_keys_present)
qed

theorem addOutboundPeer_twice_witness:
  "''1.1.1.1:5000'' = constructPeerIdFromPeerInfo infoA \<and>
   (case addOutboundPeer (exampleConfig 1 1) ''1.1.1.1:5000'' infoA None emptyPool of
      (p1, pool1) \<Rightarrow>
        (case addOutboundPeer (exampleConfig 1 1) ''1.1.1.1:5000'' (infoA\<lparr>height := 20\<rparr>) None pool1 of
           (p2, pool2) \<Rightarrow>
              length (peerMap pool2) = length (peerMap pool1) \<and>
              map fst (peerMap pool2) = map fst (peerMap pool1) \<and>
              getPeer pool1 ''1.1.1.1:5000'' = Some p1 \<and>
              getPeer pool2 ''1.1.1.1:5000'' = Some p2 \<and>
              peerInfo p2 = infoA\<lparr>height := 20\<rparr> \<and>
              p2 = p1\<lparr>peerInfo := infoA\<lparr>height := 20\<rparr>\<rparr>))"
proof -
  have h: "''1.1.1.1:5000'' = constructPeerIdFromPeerInfo infoA \<or> hasPeer emptyPool ''1.1.1.1:5000''"
    by (simp add: infoA_id)
  from addOutboundPeer_twice
         [where cfg = "exampleConfig 1 1" and firstSock = None and secondSock = None
            and secondInfo = "infoA\<lparr>height := 20\<rparr>", OF h]
  show ?thesis by (simp add: infoA_id)
qed

text \<open>
  The claim as stated fails for a peer id that is not the id of the peer info: the first
  call stores the new peer under \<open>1.1.1.1:5000\<close>, nothing is stored under \<open>X\<close>, and the
  second call adds a second peer.
\<close>

theorem addOutboundPeer_twice_grows:
  "length (peerMap (snd (addOutboundPeer (exampleConfig 1 1) ''X'' infoA None emptyPool))) = 1 \<and>
   length (peerMap (snd (addOutboundPeer (exampleConfig 1 1) ''X'' infoB None
                           (snd (addOutboundPeer (exampleConfig 1 1) ''X'' infoA None emptyPool)))))
     = 2 \<and>
   getPeer (snd (addOutboundPeer (exampleConfig 1 1) ''X'' infoB None
                   (snd (addOutboundPeer (exampleConfig 1 1) ''X'' infoA None emptyPool)))) ''X''
     = None"
  by (simp add: addOutboundPeer_def getPeer_def emptyPool_def setPeer_def OutboundPeer_def
      newPeer_def Let_def infoA_id infoB_id)

section \<open>Adding an inbound peer at the limit\<close>

lemma insert_step_count:
  "countKind Inbound (peerMap (snd
      (let peerConfig = pc; p = InboundPeer info sock peerConfig
       in if hasPeer pool1 (peer_id p)
          then (Inl (Error (''Peer '' @ peer_id p @ '' was already in the peer pool'')), pool1)
          else (let p1 = bindHandlersToPeer p;
                    p2 = (case nodeInfo pool1 of
                            Some ni \<Rightarrow> applyNodeInfoOnPeer ni p1
                          | None \<Rightarrow> p1)
                in (Inr p2, setPeer (peer_id p) p2 pool1)))))
     \<le> Suc (countKind Inbound (peerMap pool1))"
  by (auto simp: Let_def setPeer_def update_count_le le_SucI split: option.splits)

text \<open>
  C5, as amended. In a pool that satisfies the invariant of the map and has at most
  \<open>maxInboundConnections\<close> inbound peers, the inbound count is at most
  \<open>maxInboundConnections\<close> after any call of \<open>addInboundPeer\<close>, whether it returns or
  throws. When the inbound count equals \<open>maxInboundConnections\<close>, this is at least 1
  and the id of the new peer is not in the map, the call removes exactly one inbound
  peer, the head of the shuffled inbound peers, and appends the new inbound peer: the
  size of the map is unchanged and the inbound count is again
  \<open>maxInboundConnections\<close>.
\<close>

theorem addInboundPeer_at_limit:
  assumes wf: "wf_pool pool"
    and sh: "mset (shuffle (getPeers (Some Inbound) pool)) = mset (getPeers (Some Inbound) pool)"
    and le: "int (inbound (getPeersCountPerKind pool)) \<le> maxInboundConnections cfg"
  shows "int (inbound (getPeersCountPerKind (snd (addInboundPeer cfg shuffle info sock pool))))
           \<le> maxInboundConnections cfg \<and>
         (int (inbound (getPeersCountPerKind pool)) = maxInboundConnections cfg \<and>
          1 \<le> maxInboundConnections cfg \<and>
          \<not> hasPeer pool (constructPeerIdFromPeerInfo info) \<longrightarrow>
            (\<exists>victim p.
               victim \<in> set (getPeers (Some Inbound) pool) \<and>
               getPeer pool (peer_id victim) = Some victim \<and>
               fst (addInboundPeer cfg shuffle info sock pool) = Inr p \<and>
               peer_id p = constructPeerIdFromPeerInfo info \<and>
               peerInfo p = info \<and>
               kind p = Inbound \<and>
               peerMap (snd (addInboundPeer cfg shuffle info sock pool))
                 = AList.delete (peer_id victim) (peerMap pool) @ [(peer_id p, p)] \<and>
               length (peerMap (snd (addInboundPeer cfg shuffle info sock pool)))
                 = length (peerMap pool) \<and>
               int (inbound (getPeersCountPerKind (snd (addInboundPeer cfg shuffle info sock pool))))
                 = maxInboundConnections cfg))"
proof -
  let ?inb = "getPeers (Some Inbound) pool"
  let ?new = "constructPeerIdFromPeerInfo info"
  let ?max = "maxInboundConnections cfg"
  let ?pc = "\<lparr> connectTimeout = poolConnectTimeout cfg, ackTimeout = poolAckTimeout cfg,
              banTime = None \<rparr>"
  define ins where "ins = (\<lambda>pool1.
      (let peerConfig = ?pc;
           p = InboundPeer info sock peerConfig
       in if hasPeer pool1 (peer_id p)
          then (Inl (Error (''Peer '' @ peer_id p @ '' was already in the peer pool'')), pool1)
          else (let p1 = bindHandlersToPeer p;
                    p2 = (case nodeInfo pool1 of
                            Some ni \<Rightarrow> applyNodeInfoOnPeer ni p1
                          | None \<Rightarrow> p1)
                in (Inr p2, setPeer (peer_id p) p2 pool1))))"
  have ins_le: "countKind Inbound (peerMap (snd (ins pool1))) \<le> Suc (countKind Inbound (peerMap pool1))"
    for pool1
    unfolding ins_def by (rule insert_step_count)
  have len: "length ?inb = countKind Inbound (peerMap pool)"
    by (rule getPeers_length)
  have cnt: "inbound (getPeersCountPerKind pl) = countKind Inbound (peerMap pl)" for pl
    by (rule inbound_count)
  show ?thesis
  proof (cases "?max \<le> int (length ?inb)")
    case False
    then have eq: "addInboundPeer cfg shuffle info sock pool = ins pool"
      by (simp add: addInboundPeer_def ins_def)
    from False have "int (countKind Inbound (peerMap pool)) < ?max"
      by (simp add: len)
    with ins_le [of pool] show ?thesis
      by (simp add: eq cnt)
  next
    case True
    show ?thesis
    proof (cases "?inb = []")
      case True
      with sh have "shuffle ?inb = []" by simp
      with \<open>?max \<le> int (length ?inb)\<close>
      have eq: "addInboundPeer cfg shuffle info sock pool = (Inl TypeError, pool)"
        by (simp add: addInboundPeer_def)
      from True len have "countKind Inbound (peerMap pool) = 0" by simp
      with le show ?thesis by (simp add: eq cnt)
    next
      case False
      with sh obtain victim rest
        where v: "shuffle ?inb = victim # rest" and vin: "victim \<in> set ?inb"
        by (rule shuffle_head)
      from vin have vk: "kind victim = Inbound" and vm: "victim \<in> set (map snd (peerMap pool))"
        using getPeers_set by blast+
      have look: "map_of (peerMap pool) (peer_id victim) = Some victim"
        using wf vm by (rule wf_lookup)
      define pool1 where "pool1 = snd (removePeer (peer_id victim) pool)"
      have map1: "peerMap pool1 = AList.delete (peer_id victim) (peerMap pool)"
        by (simp add: pool1_def removePeer_present [OF look])
      have eq: "addInboundPeer cfg shuffle info sock pool = ins pool1"
        using True v by (simp add: addInboundPeer_def ins_def pool1_def)
      have dist: "distinct (map fst (peerMap pool))"
        using wf by (simp add: wf_pool_def)
      have c1: "countKind Inbound (peerMap pool) = Suc (countKind Inbound (peerMap pool1))"
        using delete_count [OF dist look, of Inbound] vk by (simp add: map1)
      have l1: "Suc (length (peerMap pool1)) = length (peerMap pool)"
        using delete_length [OF dist look] by (simp add: map1)
      have first:
        "int (inbound (getPeersCountPerKind (snd (addInboundPeer cfg shuffle info sock pool))))
           \<le> ?max"
        using ins_le [of pool1] c1 le by (simp add: eq cnt)
      have second: "\<exists>victim p.
               victim \<in> set ?inb \<and>
               getPeer pool (peer_id victim) = Some victim \<and>
               fst (addInboundPeer cfg shuffle info sock pool) = Inr p \<and>
               peer_id p = ?new \<and>
               peerInfo p = info \<and>
               kind p = Inbound \<and>
               peerMap (snd (addInboundPeer cfg shuffle info sock pool))
                 = AList.delete (peer_id victim) (peerMap pool) @ [(peer_id p, p)] \<and>
               length (peerMap (snd (addInboundPeer cfg shuffle info sock pool)))
                 = length (peerMap pool) \<and>
               int (inbound (getPeersCountPerKind (snd (addInboundPeer cfg shuffle info sock pool))))
                 = ?max"
        if full: "int (inbound (getPeersCountPerKind pool)) = ?max"
          and absent: "\<not> hasPeer pool ?new"
      proof -
        from absent have "?new \<notin> fst ` set (peerMap pool)"
          by (simp add: hasPeer_def)
        then have "?new \<notin> fst ` set (peerMap pool1)"
          using AList.dom_delete_subset [of "peer_id victim" "peerMap pool"] by (auto simp: map1)
        then have a1: "\<not> hasPeer pool1 ?new" and n1: "map_of (peerMap pool1) ?new = None"
          by (simp_all add: hasPeer_def map_of_eq_None_iff)
        define p where "p = (case nodeInfo pool1 of
                               Some ni \<Rightarrow>
                                 applyNodeInfoOnPeer ni (bindHandlersToPeer (InboundPeer info sock ?pc))
                             | None \<Rightarrow> bindHandlersToPeer (InboundPeer info sock ?pc))"
        have pid: "peer_id p = ?new" and pinfo: "peerInfo p = info" and pk: "kind p = Inbound"
          by (simp_all add: p_def InboundPeer_def newPeer_def bindHandlersToPeer_def on_def
              applyNodeInfoOnPeer_def split: option.splits)
        have r: "ins pool1 = (Inr p, setPeer ?new p pool1)"
          using a1 by (simp add: ins_def p_def Let_def)
        have m: "peerMap (setPeer ?new p pool1) = peerMap pool1 @ [(?new, p)]"
          using n1 by (simp add: setPeer_def update_absent)
        have "int (countKind Inbound (peerMap (setPeer ?new p pool1))) = ?max"
          using full c1 pk by (simp add: m cnt)
        then show ?thesis
          using vin look l1 pid pinfo pk
          by (intro exI [of _ victim] exI [of _ p]) (simp add: eq r m map1 getPeer_def cnt)
      qed
      from first second show ?thesis by blast
    qed
  qed
qed

theorem addInboundPeer_at_limit_witness:
  "wf_pool inboundPoolA \<and>
   mset ((\<lambda>peers. peers) (getPeers (Some Inbound) inboundPoolA))
     = mset (getPeers (Some Inbound) inboundPoolA) \<and>
   int (inbound (getPeersCountPerKind inboundPoolA)) = maxInboundConnections (exampleConfig 1 1) \<and>
   1 \<le> maxInboundConnections (exampleConfig 1 1) \<and>
   \<not> hasPeer inboundPoolA (constructPeerIdFromPeerInfo infoB) \<and>
   int (inbound (getPeersCountPerKind
          (snd (addInboundPeer (exampleConfig 1 1) (\<lambda>peers. peers) infoB Connected inboundPoolA))))
     \<le> maxInboundConnections (exampleConfig 1 1) \<and>
   (\<exists>victim p.
      victim \<in> set (getPeers (Some Inbound) inboundPoolA) \<and>
      getPeer inboundPoolA (peer_id victim) = Some victim \<and>
      fst (addInboundPeer (exampleConfig 1 1) (\<lambda>peers. peers) infoB Connected inboundPoolA) = Inr p \<and>
      peer_id p = constructPeerIdFromPeerInfo infoB \<and>
      peerInfo p = infoB \<and>
      kind p = Inbound \<and>
      peerMap (snd (addInboundPeer (exampleConfig 1 1) (\<lambda>peers. peers) infoB Connected inboundPoolA))
        = AList.delete (peer_id victim) (peerMap inboundPoolA) @ [(peer_id p, p)] \<and>
      length (peerMap (snd (addInboundPeer (exampleConfig 1 1) (\<lambda>peers. peers) infoB Connected
                              inboundPoolA)))
        = length (peerMap inboundPoolA) \<and>
      int (inbound (getPeersCountPerKind
             (snd (addInboundPeer (exampleConfig 1 1) (\<lambda>peers. peers) infoB Connected
                     inboundPoolA))))
        = maxInboundConnections (exampleConfig 1 1))"
proof -
  have wf: "wf_pool inboundPoolA"
    by (simp add: wf_pool_def inboundPoolA_map bindHandlersToPeer_def on_def infoA_id)
  have sh: "mset ((\<lambda>peers. peers) (getPeers (Some Inbound) inboundPoolA))
              = mset (getPeers (Some Inbound) inboundPoolA)"
    by simp
  have full: "int (inbound (getPeersCountPerKind inboundPoolA))
                = maxInboundConnections (exampleConfig 1 1)"
    by (simp add: inbound_count inboundPoolA_map exampleConfig_def)
  then have le: "int (inbound (getPeersCountPerKind inboundPoolA))
                   \<le> maxInboundConnections (exampleConfig 1 1)"
    by simp
  have one: "1 \<le> maxInboundConnections (exampleConfig 1 1)"
    by (simp add: exampleConfig_def)
  have absent: "\<not> hasPeer inboundPoolA (constructPeerIdFromPeerInfo infoB)"
    by (simp add: hasPeer_def inboundPoolA_map infoB_id)
  from addInboundPeer_at_limit
         [where cfg = "exampleConfig 1 1" and info = infoB and sock = Connected
            and shuffle = "\<lambda>peers. peers" and pool = inboundPoolA, OF wf sh le]
       wf sh full one absent
  show ?thesis by blast
qed

text \<open>
  The claim as stated fails when \<open>maxInboundConnections = 0\<close>: the inbound count of the
  empty pool equals the maximum, no inbound peer is there to be removed, and
  \<open>addInboundPeer\<close> throws a TypeError on reading the id of the head of an empty list;
  the new peer is not in the map afterwards.
\<close>

theorem addInboundPeer_zero_limit_throws:
  "int (inbound (getPeersCountPerKind emptyPool)) = maxInboundConnections (exampleConfig 1 0) \<and>
   \<not> hasPeer emptyPool (constructPeerIdFromPeerInfo infoA) \<and>
   addInboundPeer (exampleConfig 1 0) (\<lambda>peers. peers) infoA Connected emptyPool
     = (Inl TypeError, emptyPool) \<and>
   \<not> hasPeer (snd (addInboundPeer (exampleConfig 1 0) (\<lambda>peers. peers) infoA Connected emptyPool))
        (constructPeerIdFromPeerInfo infoA)"
  by (simp add: addInboundPeer_def getPeers_def emptyPool_def exampleConfig_def hasPeer_def
      getPeersCountPerKind_def)

section \<open>Close events\<close>

lemma removePeer_emitted: "emitted (snd (removePeer k pool)) = emitted pool"
  by (simp add: removePeer_def Let_def split: option.splits)

lemma removePeer_keys: "k \<notin> set (map fst (peerMap (snd (removePeer k pool))))"
  by (simp add: removePeer_def Let_def AList.delete_notin_dom split: option.splits)

lemma outboundPoolA_map:
  "peerMap outboundPoolA =
     [(''1.1.1.1:5000'',
       bindHandlersToPeer
         (OutboundPeer infoA None
            \<lparr> connectTimeout = Some 2000, ackTimeout = Some 10000, banTime = Some 50 \<rparr>))]"
  by (simp add: outboundPoolA_def addOutboundPeer_def getPeer_def emptyPool_def exampleConfig_def
      setPeer_def Let_def OutboundPeer_def newPeer_def infoA_id)

lemma outboundPoolA_rest:
  "emitted outboundPoolA = [] \<and> detached outboundPoolA = [] \<and> nodeInfo outboundPoolA = None"
  by (simp add: outboundPoolA_def addOutboundPeer_def getPeer_def emptyPool_def setPeer_def Let_def)

lemma inboundPoolA_rest:
  "emitted inboundPoolA = [] \<and> detached inboundPoolA = [] \<and> nodeInfo inboundPoolA = None"
  by (simp add: inboundPoolA_def addInboundPeer_def getPeers_def emptyPool_def exampleConfig_def
      hasPeer_def setPeer_def Let_def)

text \<open>
  C8. When a peer \<open>P\<close> emits \<open>closeOutbound\<close> or \<open>closeInbound\<close>, with a close packet
  whose peer info has the id of \<open>P\<close>, the handler of the pool first removes \<open>P\<close> and then
  emits the close event: the one event it adds to the log is emitted on the map as
  \<open>removePeer\<close> left it, and the id of \<open>P\<close> is not among the keys of that map.
\<close>

theorem close_removes_before_reemit:
  assumes "constructPeerIdFromPeerInfo (closedPeerInfo closePacket) = peer_id P"
  shows "emitted (handlePeerCloseOutbound closePacket pool) =
           emitted pool @
             [(EVENT_CLOSE_OUTBOUND, ClosePayload closePacket,
               map fst (peerMap (snd (removePeer (peer_id P) pool))))] \<and>
         emitted (handlePeerCloseInbound closePacket pool) =
           emitted pool @
             [(EVENT_CLOSE_INBOUND, ClosePayload closePacket,
               map fst (peerMap (snd (removePeer (peer_id P) pool))))] \<and>
         peer_id P \<notin> set (map fst (peerMap (snd (removePeer (peer_id P) pool)))) \<and>
         \<not> hasPeer (handlePeerCloseOutbound closePacket pool) (peer_id P) \<and>
         \<not> hasPeer (handlePeerCloseInbound closePacket pool) (peer_id P)"
  using assms removePeer_keys [of "peer_id P" pool]
  by (simp add: handlePeerCloseOutbound_def handlePeerCloseInbound_def emit_def Let_def
      removePeer_emitted hasPeer_def)

theorem close_removes_before_reemit_witness:
  "constructPeerIdFromPeerInfo (closedPeerInfo (exampleClose infoA))
     = peer_id (OutboundPeer infoA None
                  \<lparr> connectTimeout = Some 2000, ackTimeout = Some 10000, banTime = Some 50 \<rparr>) \<and>
   hasPeer outboundPoolA ''1.1.1.1:5000'' \<and>
   emitted (handlePeerCloseOutbound (exampleClose infoA) outboundPoolA)
     = [(EVENT_CLOSE_OUTBOUND, ClosePayload (exampleClose infoA), [])] \<and>
   emitted (handlePeerCloseInbound (exampleClose infoA) outboundPoolA)
     = [(EVENT_CLOSE_INBOUND, ClosePayload (exampleClose infoA), [])] \<and>
   \<not> hasPeer (handlePeerCloseOutbound (exampleClose infoA) outboundPoolA) ''1.1.1.1:5000'' \<and>
   \<not> hasPeer (handlePeerCloseInbound (exampleClose infoA) outboundPoolA) ''1.1.1.1:5000''"
proof -
  let ?P = "OutboundPeer infoA None
              \<lparr> connectTimeout = Some 2000, ackTimeout = Some 10000, banTime = Some 50 \<rparr>"
  have idP: "peer_id ?P = ''1.1.1.1:5000''"
    by (simp add: OutboundPeer_def newPeer_def infoA_id)
  have h: "constructPeerIdFromPeerInfo (closedPeerInfo (exampleClose infoA)) = peer_id ?P"
    by (simp add: exampleClose_def idP infoA_id)
  have present: "hasPeer outboundPoolA ''1.1.1.1:5000''"
    by (simp add: hasPeer_def outboundPoolA_map)
  have keys: "map fst (peerMap (snd (removePeer ''1.1.1.1:5000'' outboundPoolA))) = []"
    by (simp add: removePeer_def outboundPoolA_map Let_def)
  from close_removes_before_reemit [where pool = outboundPoolA, OF h] h present
  show ?thesis by (simp add: idP keys outboundPoolA_rest)
qed

section \<open>Listeners left on a removed peer\<close>

text \<open>
  C3. \<open>_bindHandlersToPeer\<close> registers twelve listeners and \<open>_unbindHandlersFromPeer\<close>
  removes ten of them. After \<open>removePeer\<close> of the one peer of a pool, the removed peer
  object still carries the listeners of the pool for the two socket error events. The
  peer that a following \<open>addOutboundPeer\<close> creates is a new object with the twelve
  listeners, one for each event.
\<close>

theorem removePeer_leaves_socket_error_listeners:
  "map listeners (detached (snd (removePeer ''1.1.1.1:5000'' outboundPoolA))) =
     [[(EVENT_OUTBOUND_SOCKET_ERROR, HandlePeerOutboundSocketError),
       (EVENT_INBOUND_SOCKET_ERROR, HandlePeerInboundSocketError)]] \<and>
   map fst (listeners (fst (addOutboundPeer (exampleConfig 1 1) ''1.1.1.1:5000'' infoA None
                              (snd (removePeer ''1.1.1.1:5000'' outboundPoolA))))) =
     [EVENT_REQUEST_RECEIVED, EVENT_MESSAGE_RECEIVED, EVENT_CONNECT_OUTBOUND,
      EVENT_CONNECT_ABORT_OUTBOUND, EVENT_CLOSE_OUTBOUND, EVENT_CLOSE_INBOUND,
      EVENT_OUTBOUND_SOCKET_ERROR, EVENT_INBOUND_SOCKET_ERROR, EVENT_UPDATED_PEER_INFO,
      EVENT_FAILED_PEER_INFO_UPDATE, EVENT_BAN_PEER, EVENT_UNBAN_PEER]"
  by (simp add: removePeer_def outboundPoolA_map outboundPoolA_rest Let_def
      unbindHandlersFromPeer_def bindHandlersToPeer_def disconnect_def removeListener_def on_def
      OutboundPeer_def newPeer_def addOutboundPeer_def getPeer_def setPeer_def)

section \<open>Bucketing\<close>

text \<open>
  C4. \<open>getBucket\<close> returns what the random draw gives: two invocations with the same
  address, secret and bucket size return different buckets when the draws differ.
\<close>

theorem getBucket_follows_random_draw:
  "getBucket ''1.1.1.1'' 42 32 0 = 0 \<and> getBucket ''1.1.1.1'' 42 32 (1 / 2) = 32"
  by (simp add: getBucket_def)

section \<open>Requests\<close>

text \<open>
  C7, as amended. \<open>request\<close> runs the request selector with limit 1 over the peer infos of
  the peers of the map, in the order of the map. If the selector returns the empty list,
  \<open>request\<close> fails with the RequestFail of the pool; otherwise it returns what
  \<open>requestFromPeer\<close> returns for the id of the first selected peer, which is a RequestFail
  too when that id is not in the map. With no peer in the map \<open>request\<close> fails with a
  RequestFail whatever the selector returns.
\<close>

theorem request_selects_one:
  "(peerSelectionForRequest cfg (map (\<lambda>e. peerInfo (snd e)) (peerMap pool)) (nodeInfo pool) 1
      packet = []
    \<longrightarrow> request cfg peerRequest packet pool =
          Inl (RequestFailError ''Request failed due to no peers found in peer selection'')) \<and>
   (peerSelectionForRequest cfg (map (\<lambda>e. peerInfo (snd e)) (peerMap pool)) (nodeInfo pool) 1
      packet = first # rest
    \<longrightarrow> request cfg peerRequest packet pool =
          requestFromPeer peerRequest packet (constructPeerIdFromPeerInfo first) pool) \<and>
   (\<not> hasPeer pool peerId
    \<longrightarrow> requestFromPeer peerRequest packet peerId pool =
          Inl (RequestFailError
                 (''Request failed because a peer with id '' @ peerId @ '' could not be found''))) \<and>
   (peerMap pool = []
    \<longrightarrow> (\<exists>msg. request cfg peerRequest packet pool = Inl (RequestFailError msg)))"
proof (intro conjI impI)
  assume "peerSelectionForRequest cfg (map (\<lambda>e. peerInfo (snd e)) (peerMap pool)) (nodeInfo pool) 1
            packet = []"
  then show "request cfg peerRequest packet pool =
               Inl (RequestFailError ''Request failed due to no peers found in peer selection'')"
    by (simp add: request_def)
next
  assume "peerSelectionForRequest cfg (map (\<lambda>e. peerInfo (snd e)) (peerMap pool)) (nodeInfo pool) 1
            packet = first # rest"
  then show "request cfg peerRequest packet pool =
               requestFromPeer peerRequest packet (constructPeerIdFromPeerInfo first) pool"
    by (simp add: request_def)
next
  assume "\<not> hasPeer pool peerId"
  then have "map_of (peerMap pool) peerId = None"
    by (simp add: hasPeer_def map_of_eq_None_iff)
  then show "requestFromPeer peerRequest packet peerId pool =
               Inl (RequestFailError
                      (''Request failed because a peer with id '' @ peerId @ '' could not be found''))"
    by (simp add: requestFromPeer_def)
next
  assume "peerMap pool = []"
  then show "\<exists>msg. request cfg peerRequest packet pool = Inl (RequestFailError msg)"
    by (simp add: request_def requestFromPeer_def split: list.splits)
qed

theorem request_selects_one_witness:
  "peerSelectionForRequest (exampleConfig 1 1) (map (\<lambda>e. peerInfo (snd e)) (peerMap emptyPool))
     (nodeInfo emptyPool) 1 exampleRequest = [] \<and>
   request (exampleConfig 1 1) answeringPeer exampleRequest emptyPool =
     Inl (RequestFailError ''Request failed due to no peers found in peer selection'') \<and>
   peerSelectionForRequest (exampleConfig 1 1) (map (\<lambda>e. peerInfo (snd e)) (peerMap inboundPoolA))
     (nodeInfo inboundPoolA) 1 exampleRequest = infoA # [] \<and>
   request (exampleConfig 1 1) answeringPeer exampleRequest inboundPoolA =
     requestFromPeer answeringPeer exampleRequest (constructPeerIdFromPeerInfo infoA) inboundPoolA \<and>
   request (exampleConfig 1 1) answeringPeer exampleRequest inboundPoolA =
     Inr \<lparr> responseData = ''getBlocks'' \<rparr> \<and>
   \<not> hasPeer emptyPool ''2.2.2.2:5000'' \<and>
   requestFromPeer answeringPeer exampleRequest ''2.2.2.2:5000'' emptyPool =
     Inl (RequestFailError
            (''Request failed because a peer with id '' @ ''2.2.2.2:5000'' @ '' could not be found'')) \<and>
   peerMap emptyPool = []"
proof -
  have none: "peerSelectionForRequest (exampleConfig 1 1)
                (map (\<lambda>e. peerInfo (snd e)) (peerMap emptyPool)) (nodeInfo emptyPool) 1
                exampleRequest = []"
    by (simp add: exampleConfig_def emptyPool_def)
  have one: "peerSelectionForRequest (exampleConfig 1 1)
               (map (\<lambda>e. peerInfo (snd e)) (peerMap inboundPoolA)) (nodeInfo inboundPoolA) 1
               exampleRequest = infoA # []"
    by (simp add: exampleConfig_def inboundPoolA_map bindHandlersToPeer_def on_def
        InboundPeer_def newPeer_def)
  have absent: "\<not> hasPeer emptyPool ''2.2.2.2:5000''" and empty: "peerMap emptyPool = []"
    by (simp_all add: hasPeer_def emptyPool_def)
  have answer: "requestFromPeer answeringPeer exampleRequest (constructPeerIdFromPeerInfo infoA)
                  inboundPoolA = Inr \<lparr> responseData = ''getBlocks'' \<rparr>"
    by (simp add: requestFromPeer_def inboundPoolA_map infoA_id answeringPeer_def
        exampleRequest_def)
  from request_selects_one
         [where cfg = "exampleConfig 1 1" and pool = emptyPool and packet = exampleRequest
            and peerRequest = answeringPeer and peerId = "''2.2.2.2:5000''"]
       request_selects_one
         [where cfg = "exampleConfig 1 1" and pool = inboundPoolA and packet = exampleRequest
            and peerRequest = answeringPeer and first = infoA and rest = "[]"]
       none one absent empty answer
  show ?thesis by simp
qed

text \<open>
  The claim as stated fails in the direction from the failure to the empty selection:
  \<open>request\<close> fails with a RequestFail although the selector has returned a peer, when
  that peer is not in the map, and when the request of the selected peer itself fails
  with a RequestFail.
\<close>

theorem request_fails_with_selected_peer:
  "peerSelectionForRequest (fixedConfig infoB) (map (\<lambda>e. peerInfo (snd e)) (peerMap emptyPool))
     (nodeInfo emptyPool) 1 exampleRequest = [infoB] \<and>
   request (fixedConfig infoB) answeringPeer exampleRequest emptyPool =
     Inl (RequestFailError ''Request failed because a peer with id 2.2.2.2:5000 could not be found'') \<and>
   peerSelectionForRequest (exampleConfig 1 1) (map (\<lambda>e. peerInfo (snd e)) (peerMap inboundPoolA))
     (nodeInfo inboundPoolA) 1 exampleRequest = [infoA] \<and>
   request (exampleConfig 1 1) failingPeer exampleRequest inboundPoolA =
     Inl (RequestFailError ''Request failed on the channel'')"
  by (simp add: request_def requestFromPeer_def fixedConfig_def exampleConfig_def emptyPool_def
      infoB_id infoA_id inboundPoolA_map inboundPoolA_rest failingPeer_def
      bindHandlersToPeer_def on_def InboundPeer_def newPeer_def)

section \<open>Sending\<close>

lemma sendToPeer_connected:
  assumes "connectedPeer pool k"
  shows "\<exists>p. map_of (peerMap pool) k = Some p \<and> state p = Connected \<and>
             sendToPeer m k pool =
               (Inr (),
                pool\<lparr>peerMap := AList.update k (p\<lparr>outbox := outbox p @ [m]\<rparr>) (peerMap pool)\<rparr>)"
  using assms
  by (auto simp: connectedPeer_def sendToPeer_def peer_send_def split: option.splits)

lemma sendToPeer_not_connected:
  assumes "\<not> connectedPeer pool k"
  shows "\<exists>msg. sendToPeer m k pool = (Inl (SendFailError msg), pool)"
  using assms
  by (auto simp: connectedPeer_def sendToPeer_def peer_send_def split: option.splits)

lemma sendToPeer_emitted: "emitted (snd (sendToPeer m k pool)) = emitted pool"
  by (auto simp: sendToPeer_def split: option.splits sum.splits)

lemma sendToPeer_keys: "map fst (peerMap (snd (sendToPeer m k pool))) = map fst (peerMap pool)"
  by (auto simp: sendToPeer_def update_keys_present split: option.splits sum.splits)

lemma sendToPeer_connectedPeer:
  "connectedPeer (snd (sendToPeer m k pool)) k' = connectedPeer pool k'"
  by (auto simp: sendToPeer_def connectedPeer_def peer_send_def AList.update_conv'
      split: option.splits sum.splits if_splits)

lemma sendToPeer_received_mono:
  "received m pool k' \<Longrightarrow> received m (snd (sendToPeer m k pool)) k'"
  by (auto simp: sendToPeer_def received_def peer_send_def AList.update_conv'
      split: option.splits sum.splits if_splits)

lemma sendToPeer_received:
  "connectedPeer pool k \<Longrightarrow> received m (snd (sendToPeer m k pool)) k"
  by (auto simp: sendToPeer_def received_def connectedPeer_def peer_send_def AList.update_conv'
      split: option.splits sum.splits if_splits)

lemma sendToEach_emitted: "emitted (snd (sendToEach m infos pool)) = emitted pool"
proof (induction infos arbitrary: pool)
  case Nil
  show ?case by simp
next
  case (Cons info infos)
  obtain r pool1 where s: "sendToPeer m (constructPeerIdFromPeerInfo info) pool = (r, pool1)"
    by (cases "sendToPeer m (constructPeerIdFromPeerInfo info) pool")
  have "emitted pool1 = emitted pool"
    using sendToPeer_emitted [of m "constructPeerIdFromPeerInfo info" pool] s by simp
  then show ?case using Cons.IH [of pool1] s by (cases r) simp_all
qed

lemma sendToEach_keys:
  "map fst (peerMap (snd (sendToEach m infos pool))) = map fst (peerMap pool)"
proof (induction infos arbitrary: pool)
  case Nil
  show ?case by simp
next
  case (Cons info infos)
  obtain r pool1 where s: "sendToPeer m (constructPeerIdFromPeerInfo info) pool = (r, pool1)"
    by (cases "sendToPeer m (constructPeerIdFromPeerInfo info) pool")
  have "map fst (peerMap pool1) = map fst (peerMap pool)"
    using sendToPeer_keys [of m "constructPeerIdFromPeerInfo info" pool] s by simp
  then show ?case using Cons.IH [of pool1] s by (cases r) simp_all
qed

lemma sendToEach_received_mono:
  "received m pool k \<Longrightarrow> received m (snd (sendToEach m infos pool)) k"
proof (induction infos arbitrary: pool)
  case Nil
  then show ?case by simp
next
  case (Cons info infos)
  obtain r pool1 where s: "sendToPeer m (constructPeerIdFromPeerInfo info) pool = (r, pool1)"
    by (cases "sendToPeer m (constructPeerIdFromPeerInfo info) pool")
  have "received m pool1 k"
    using sendToPeer_received_mono [OF Cons.prems, of "constructPeerIdFromPeerInfo info"] s
    by simp
  then show ?case using Cons.IH [of pool1] s by (cases r) simp_all
qed

lemma sendToEach_all_connected:
  "\<forall>info\<in>set infos. connectedPeer pool (constructPeerIdFromPeerInfo info) \<Longrightarrow>
   fst (sendToEach m infos pool) = Inr () \<and>
   (\<forall>info\<in>set infos.
      received m (snd (sendToEach m infos pool)) (constructPeerIdFromPeerInfo info))"
proof (induction infos arbitrary: pool)
  case Nil
  show ?case by simp
next
  case (Cons info infos)
  let ?k = "constructPeerIdFromPeerInfo info"
  define pool1 where "pool1 = snd (sendToPeer m ?k pool)"
  from Cons.prems have c: "connectedPeer pool ?k" by simp
  then have s: "sendToPeer m ?k pool = (Inr (), pool1)"
    using sendToPeer_connected [OF c, of m] by (auto simp: pool1_def)
  have "\<forall>i\<in>set infos. connectedPeer pool1 (constructPeerIdFromPeerInfo i)"
    using Cons.prems by (simp add: pool1_def sendToPeer_connectedPeer)
  then have ih: "fst (sendToEach m infos pool1) = Inr () \<and>
     (\<forall>i\<in>set infos. received m (snd (sendToEach m infos pool1)) (constructPeerIdFromPeerInfo i))"
    by (rule Cons.IH)
  have "received m pool1 ?k"
    unfolding pool1_def using c by (rule sendToPeer_received)
  then have "received m (snd (sendToEach m infos pool1)) ?k"
    by (rule sendToEach_received_mono)
  with ih show ?case by (simp add: s)
qed

lemma sendToEach_some_not_connected:
  "\<exists>info\<in>set infos. \<not> connectedPeer pool (constructPeerIdFromPeerInfo info) \<Longrightarrow>
   \<exists>msg. fst (sendToEach m infos pool) = Inl (SendFailError msg)"
proof (induction infos arbitrary: pool)
  case Nil
  then show ?case by simp
next
  case (Cons info infos)
  let ?k = "constructPeerIdFromPeerInfo info"
  show ?case
  proof (cases "connectedPeer pool ?k")
    case False
    then obtain msg where "sendToPeer m ?k pool = (Inl (SendFailError msg), pool)"
      using sendToPeer_not_connected by blast
    then show ?thesis by simp
  next
    case True
    define pool1 where "pool1 = snd (sendToPeer m ?k pool)"
    have s: "sendToPeer m ?k pool = (Inr (), pool1)"
      using sendToPeer_connected [OF True, of m] by (auto simp: pool1_def)
    from Cons.prems True
    have "\<exists>i\<in>set infos. \<not> connectedPeer pool1 (constructPeerIdFromPeerInfo i)"
      by (auto simp: pool1_def sendToPeer_connectedPeer)
    then have "\<exists>msg. fst (sendToEach m infos pool1) = Inl (SendFailError msg)"
      by (rule Cons.IH)
    then show ?thesis by (simp add: s)
  qed
qed

text \<open>
  C2, as amended. \<open>send\<close> runs the send selector with \<open>sendPeerLimit\<close> over the peer infos
  of the peers of the map and calls \<open>sendToPeer\<close> for the selected peers in turn. It emits
  no event and leaves the keys of the map as they are. When every selected peer is in
  the map with a connected channel, \<open>send\<close> returns and each selected peer has been
  handed the message. When some selected peer is not in the map or its channel is not
  connected, \<open>send\<close> throws a SendFail to its caller.
\<close>

theorem send_delivers_or_throws:
  "emitted (snd (send cfg message pool)) = emitted pool \<and>
   map fst (peerMap (snd (send cfg message pool))) = map fst (peerMap pool) \<and>
   ((\<forall>info \<in> set (peerSelectionForSend cfg (map (\<lambda>e. peerInfo (snd e)) (peerMap pool))
                      (nodeInfo pool) (sendPeerLimit cfg) message).
        connectedPeer pool (constructPeerIdFromPeerInfo info))
    \<longrightarrow> fst (send cfg message pool) = Inr () \<and>
        (\<forall>info \<in> set (peerSelectionForSend cfg (map (\<lambda>e. peerInfo (snd e)) (peerMap pool))
                         (nodeInfo pool) (sendPeerLimit cfg) message).
           received message (snd (send cfg message pool)) (constructPeerIdFromPeerInfo info))) \<and>
   ((\<exists>info \<in> set (peerSelectionForSend cfg (map (\<lambda>e. peerInfo (snd e)) (peerMap pool))
                      (nodeInfo pool) (sendPeerLimit cfg) message).
        \<not> connectedPeer pool (constructPeerIdFromPeerInfo info))
    \<longrightarrow> (\<exists>msg. fst (send cfg message pool) = Inl (SendFailError msg)))"
  unfolding send_def Let_def
  using sendToEach_emitted sendToEach_keys sendToEach_all_connected sendToEach_some_not_connected
  by blast

theorem send_delivers_or_throws_witness:
  "peerSelectionForSend (exampleConfig 1 1) (map (\<lambda>e. peerInfo (snd e)) (peerMap inboundPoolA))
     (nodeInfo inboundPoolA) (sendPeerLimit (exampleConfig 1 1)) exampleMessage = [infoA] \<and>
   connectedPeer inboundPoolA (constructPeerIdFromPeerInfo infoA) \<and>
   fst (send (exampleConfig 1 1) exampleMessage inboundPoolA) = Inr () \<and>
   received exampleMessage (snd (send (exampleConfig 1 1) exampleMessage inboundPoolA))
     ''1.1.1.1:5000'' \<and>
   peerSelectionForSend (exampleConfig 1 1) (map (\<lambda>e. peerInfo (snd e)) (peerMap outboundPoolA))
     (nodeInfo outboundPoolA) (sendPeerLimit (exampleConfig 1 1)) exampleMessage = [infoA] \<and>
   \<not> connectedPeer outboundPoolA (constructPeerIdFromPeerInfo infoA) \<and>
   (\<exists>msg. fst (send (exampleConfig 1 1) exampleMessage outboundPoolA) = Inl (SendFailError msg)) \<and>
   emitted (snd (send (exampleConfig 1 1) exampleMessage outboundPoolA)) = []"
proof -
  have selIn: "peerSelectionForSend (exampleConfig 1 1)
                 (map (\<lambda>e. peerInfo (snd e)) (peerMap inboundPoolA))
                 (nodeInfo inboundPoolA) (sendPeerLimit (exampleConfig 1 1)) exampleMessage
               = [infoA]"
    by (simp add: exampleConfig_def inboundPoolA_map bindHandlersToPeer_def on_def
        InboundPeer_def newPeer_def)
  have selOut: "peerSelectionForSend (exampleConfig 1 1)
                  (map (\<lambda>e. peerInfo (snd e)) (peerMap outboundPoolA))
                  (nodeInfo outboundPoolA) (sendPeerLimit (exampleConfig 1 1)) exampleMessage
                = [infoA]"
    by (simp add: exampleConfig_def outboundPoolA_map bindHandlersToPeer_def on_def
        OutboundPeer_def newPeer_def)
  have conn: "connectedPeer inboundPoolA (constructPeerIdFromPeerInfo infoA)"
    by (simp add: connectedPeer_def inboundPoolA_map infoA_id bindHandlersToPeer_def on_def
        InboundPeer_def newPeer_def)
  have notconn: "\<not> connectedPeer outboundPoolA (constructPeerIdFromPeerInfo infoA)"
    by (simp add: connectedPeer_def outboundPoolA_map infoA_id bindHandlersToPeer_def on_def
        OutboundPeer_def newPeer_def)
  have allIn: "\<forall>info \<in> set (peerSelectionForSend (exampleConfig 1 1)
                    (map (\<lambda>e. peerInfo (snd e)) (peerMap inboundPoolA))
                    (nodeInfo inboundPoolA) (sendPeerLimit (exampleConfig 1 1)) exampleMessage).
      connectedPeer inboundPoolA (constructPeerIdFromPeerInfo info)"
    by (simp add: selIn conn)
  have someOut: "\<exists>info \<in> set (peerSelectionForSend (exampleConfig 1 1)
                    (map (\<lambda>e. peerInfo (snd e)) (peerMap outboundPoolA))
                    (nodeInfo outboundPoolA) (sendPeerLimit (exampleConfig 1 1)) exampleMessage).
      \<not> connectedPeer outboundPoolA (constructPeerIdFromPeerInfo info)"
    by (simp add: selOut notconn)
  have sent: "fst (send (exampleConfig 1 1) exampleMessage inboundPoolA) = Inr () \<and>
      (\<forall>info \<in> set (peerSelectionForSend (exampleConfig 1 1)
                    (map (\<lambda>e. peerInfo (snd e)) (peerMap inboundPoolA))
                    (nodeInfo inboundPoolA) (sendPeerLimit (exampleConfig 1 1)) exampleMessage).
         received exampleMessage (snd (send (exampleConfig 1 1) exampleMessage inboundPoolA))
           (constructPeerIdFromPeerInfo info))"
    using send_delivers_or_throws [of "exampleConfig 1 1" exampleMessage inboundPoolA] allIn
    by blast
  then have got: "received exampleMessage
                    (snd (send (exampleConfig 1 1) exampleMessage inboundPoolA)) ''1.1.1.1:5000''"
    by (simp add: selIn infoA_id)
  have thrown: "\<exists>msg. fst (send (exampleConfig 1 1) exampleMessage outboundPoolA)
                        = Inl (SendFailError msg)"
    using send_delivers_or_throws [of "exampleConfig 1 1" exampleMessage outboundPoolA] someOut
    by blast
  have silent: "emitted (snd (send (exampleConfig 1 1) exampleMessage outboundPoolA)) = []"
    using send_delivers_or_throws [of "exampleConfig 1 1" exampleMessage outboundPoolA]
    by (simp add: outboundPoolA_rest)
  from selIn selOut conn notconn sent got thrown silent show ?thesis by blast
qed

text \<open>
  The claim as stated fails: with a selected peer that is not in the map, and with a
  selected peer whose channel is not connected, \<open>send\<close> throws the SendFail to its caller
  and emits no event.
\<close>

theorem send_throws_SendFail:
  "send (fixedConfig infoB) exampleMessage emptyPool =
     (Inl (SendFailError ''Send failed because a peer with id 2.2.2.2:5000 could not be found''),
      emptyPool) \<and>
   emitted emptyPool = [] \<and>
   send (exampleConfig 1 1) exampleMessage outboundPoolA =
     (Inl (SendFailError ''Peer channel is not connected''), outboundPoolA) \<and>
   emitted outboundPoolA = []"
  by (simp add: send_def sendToPeer_def peer_send_def fixedConfig_def exampleConfig_def
      emptyPool_def infoB_id infoA_id outboundPoolA_map outboundPoolA_rest
      bindHandlersToPeer_def on_def OutboundPeer_def newPeer_def)

section \<open>The invariant of the map is kept\<close>

lemma own_id_update:
  "list_all (\<lambda>e. peer_id (snd e) = fst e) al \<Longrightarrow> peer_id v = k \<Longrightarrow>
   list_all (\<lambda>e. peer_id (snd e) = fst e) (AList.update k v al)"
  by (induction al) auto

lemma own_id_delete:
  "list_all (\<lambda>e. peer_id (snd e) = fst e) al \<Longrightarrow>
   list_all (\<lambda>e. peer_id (snd e) = fst e) (AList.delete k al)"
  by (induction al) auto

lemma wf_update:
  "wf_pool pool \<Longrightarrow> peer_id v = k \<Longrightarrow> wf_pool (pool\<lparr>peerMap := AList.update k v (peerMap pool)\<rparr>)"
  by (simp add: wf_pool_def AList.distinct_update own_id_update)

lemma wf_emptyPool: "wf_pool emptyPool"
  by (simp add: wf_pool_def emptyPool_def)

lemma wf_removePeer: "wf_pool pool \<Longrightarrow> wf_pool (snd (removePeer k pool))"
  by (simp add: wf_pool_def removePeer_def Let_def AList.distinct_delete own_id_delete
      split: option.splits)

lemma peer_id_bind [simp]: "peer_id (bindHandlersToPeer p) = peer_id p"
  by (simp add: bindHandlersToPeer_def on_def)

lemma peer_id_apply [simp]: "peer_id (applyNodeInfoOnPeer ni p) = peer_id p"
  by (simp add: applyNodeInfoOnPeer_def)

lemma wf_setPeer: "wf_pool pool \<Longrightarrow> peer_id v = k \<Longrightarrow> wf_pool (setPeer k v pool)"
  by (simp add: wf_pool_def setPeer_def AList.distinct_update own_id_update)

lemma wf_addOutboundPeer:
  assumes "wf_pool pool"
  shows "wf_pool (snd (addOutboundPeer cfg peerId info sock pool))"
proof (cases "getPeer pool peerId")
  case None
  then show ?thesis
    using assms by (auto simp: addOutboundPeer_def Let_def intro!: wf_setPeer split: option.splits)
next
  case (Some existing)
  then have "map_of (peerMap pool) peerId = Some existing"
    by (simp add: getPeer_def)
  then have "existing \<in> set (map snd (peerMap pool))" and "(peerId, existing) \<in> set (peerMap pool)"
    by (auto dest: map_of_SomeD intro: rev_image_eqI)
  with assms have "peer_id existing = peerId"
    by (auto simp: wf_pool_def list_all_iff)
  then show ?thesis
    using assms Some by (simp add: addOutboundPeer_existing wf_update)
qed

lemma wf_addInboundPeer:
  assumes "wf_pool pool"
  shows "wf_pool (snd (addInboundPeer cfg shuffle info sock pool))"
  using assms
  by (auto simp: addInboundPeer_def Let_def intro!: wf_setPeer wf_removePeer
      split: list.splits option.splits)

lemma wf_sendToPeer:
  assumes "wf_pool pool"
  shows "wf_pool (snd (sendToPeer m k pool))"
proof (cases "map_of (peerMap pool) k")
  case None
  with assms show ?thesis by (simp add: sendToPeer_def)
next
  case (Some p)
  then have "(k, p) \<in> set (peerMap pool)" by (rule map_of_SomeD)
  with assms have "peer_id p = k"
    by (auto simp: wf_pool_def list_all_iff)
  with assms Some show ?thesis
    by (auto simp: sendToPeer_def peer_send_def intro!: wf_update)
qed

end
